theory Spec2Isabelle
  imports
    Main
    "HOL-Library.Sublist"
    "HOL-Library.Char_ord"
    "HOL-Library.List_Lexorder"
    "HOL-Library.Option_ord"
    "HOL-Library.FSet"
begin

section \<open>Python string primitives used by the translator\<close>

text \<open>
  Python 2 \<open>str\<close> values are byte strings, modelled as \<open>string\<close>.
  \<open>startswith\<close> is \<open>str.startswith\<close>, \<open>str_contains sub s\<close> is \<open>sub in s\<close>,
  \<open>split sep s\<close> is \<open>s.split(sep)\<close> for a one-character separator, and
  \<open>strip_char c s\<close> is \<open>s.strip(c)\<close>.
\<close>

definition startswith :: "string \<Rightarrow> string \<Rightarrow> bool" where
  "startswith p s = (take (length p) s = p)"

fun str_contains :: "string \<Rightarrow> string \<Rightarrow> bool" where
  "str_contains sub [] = (sub = [])"
| "str_contains sub (c # cs) = (startswith sub (c # cs) \<or> str_contains sub cs)"

fun split :: "char \<Rightarrow> string \<Rightarrow> string list" where
  "split sep [] = [[]]"
| "split sep (c # cs) =
     (if c = sep then [] # split sep cs
      else (case split sep cs of p # ps \<Rightarrow> (c # p) # ps | [] \<Rightarrow> [[c]]))"

definition strip_char :: "char \<Rightarrow> string \<Rightarrow> string" where
  "strip_char c s = rev (dropWhile (\<lambda>x. x = c) (rev (dropWhile (\<lambda>x. x = c) s)))"

section \<open>Reference types and the classifier\<close>

text \<open>The members of \<open>REFERENCE_TYPE\<close>, in the order of the source's Enum.\<close>

datatype REFERENCE_TYPE =
  MODULE | CLASS | QUALIFIED_CLASS | MODULE_CLASS | PACKAGE | MODULE_PACKAGE
  | FILE_PATH | INTEGRATION | SUITE

text \<open>\<open>CLITranslator._get_test_reference_types\<close>.\<close>

definition get_test_reference_types :: "string \<Rightarrow> REFERENCE_TYPE list" where
  "get_test_reference_types ref =
     (if startswith ''.'' ref \<or> str_contains ''..'' ref then [FILE_PATH]
      else if str_contains ''/'' ref then
        (if startswith ''/'' ref then [FILE_PATH] else [FILE_PATH, INTEGRATION])
      else if str_contains '':'' ref then
        (if str_contains ''.'' ref then [MODULE_CLASS, MODULE_PACKAGE, INTEGRATION]
         else [MODULE_CLASS, INTEGRATION])
      else if str_contains ''.'' ref then [FILE_PATH, QUALIFIED_CLASS, PACKAGE]
      else [INTEGRATION, MODULE, CLASS])"

section \<open>Test filters and test descriptors\<close>

text \<open>
  \<open>TestFilter\<close> and \<open>TestInfo\<close> are the source's named tuples. A Python
  \<open>frozenset\<close> is a finite set. \<open>rel_config\<close>, \<open>module_name\<close> and
  \<open>integrated_name\<close> hold a string or \<open>None\<close>.
\<close>

record TestFilter =
  class_name :: string
  methods :: "string fset"

record TestInfo =
  rel_config :: "string option"
  "module_name" :: "string option"
  integrated_name :: "string option"
  filters :: "TestFilter fset"

section \<open>Sorting and grouping\<close>

text \<open>
  \<open>itertools.groupby\<close>: maximal runs of consecutive elements whose key equals the
  key of the run's first element. \<open>sorted(iterable, key=key)\<close> is a stable sort, as
  \<open>sort_key\<close> is. Strings are ordered bytewise and \<open>None\<close> sorts before every
  string, as in Python 2.
\<close>

function groupby :: "('a \<Rightarrow> 'k) \<Rightarrow> 'a list \<Rightarrow> ('k \<times> 'a list) list" where
  "groupby key [] = []"
| "groupby key (x # xs) =
     (key x, x # takeWhile (\<lambda>y. key y = key x) xs)
       # groupby key (dropWhile (\<lambda>y. key y = key x) xs)"
  by pat_completeness auto
termination
  by (relation "measure (\<lambda>(key, xs). length xs)")
     (auto simp: length_dropWhile_le less_Suc_eq_le)

text \<open>\<open>CLITranslator._sort_and_group\<close>. The list is the iterable in iteration order.\<close>

definition sort_and_group :: "('a \<Rightarrow> 'k::linorder) \<Rightarrow> 'a list \<Rightarrow> ('k \<times> 'a list) list" where
  "sort_and_group key iterable = groupby key (sort_key key iterable)"

section \<open>Flattening filters and descriptors\<close>

text \<open>
  The inner loop of \<open>_flatten_test_filters\<close> over one group: \<open>ms\<close> is the
  variable \<open>methods\<close>; a filter without methods resets it and breaks.
\<close>

fun group_methods :: "string fset \<Rightarrow> TestFilter list \<Rightarrow> string fset" where
  "group_methods ms [] = ms"
| "group_methods ms (f # fs) =
     (if methods f = {||} then {||} else group_methods (ms |\<union>| methods f) fs)"

text \<open>The outer loop of \<open>_flatten_test_filters\<close>; \<open>results\<close> is the result set.\<close>

fun flatten_filter_groups ::
  "TestFilter fset \<Rightarrow> (string \<times> TestFilter list) list \<Rightarrow> TestFilter fset" where
  "flatten_filter_groups results [] = results"
| "flatten_filter_groups results ((c, g) # gs) =
     flatten_filter_groups
       (finsert \<lparr>class_name = c, methods = group_methods {||} g\<rparr> results) gs"

text \<open>
  \<open>CLITranslator._flatten_test_filters\<close>. The argument lists the frozenset
  \<open>filters\<close> in the order in which Python iterates over it.
\<close>

definition flatten_test_filters :: "TestFilter list \<Rightarrow> TestFilter fset" where
  "flatten_test_filters filters_in =
     flatten_filter_groups {||} (sort_and_group class_name filters_in)"

text \<open>
  The inner loop of \<open>_flatten_test_infos\<close> over one module's group: the pair is
  \<open>(rel_config, filters)\<close>; a descriptor without filters resets the filters and breaks.
\<close>

fun group_infos ::
  "string option \<times> TestFilter fset \<Rightarrow> TestInfo list \<Rightarrow> string option \<times> TestFilter fset" where
  "group_infos (rc, fs) [] = (rc, fs)"
| "group_infos (rc, fs) (t # ts) =
     (if filters t = {||} then (rel_config t, {||})
      else group_infos (rel_config t, fs |\<union>| filters t) ts)"

text \<open>
  The body and the outer loop of \<open>_flatten_test_infos\<close>: a group without module
  name is an integration test and is added as it is; a module's group becomes one
  descriptor. \<open>iter\<close> gives the order in which Python iterates over a set of
  filters when \<open>_flatten_test_filters\<close> sorts it.
\<close>

definition flatten_module_group ::
  "(TestFilter fset \<Rightarrow> TestFilter list) \<Rightarrow> string \<Rightarrow> TestInfo list \<Rightarrow> TestInfo" where
  "flatten_module_group iter m g =
     (case group_infos (None, {||}) g of
        (rc, fs) \<Rightarrow>
          \<lparr>rel_config = rc, module_name = Some m, integrated_name = None,
           filters = flatten_test_filters (iter fs)\<rparr>)"

fun flatten_info_groups ::
  "(TestFilter fset \<Rightarrow> TestFilter list) \<Rightarrow> TestInfo fset
     \<Rightarrow> (string option \<times> TestInfo list) list \<Rightarrow> TestInfo fset" where
  "flatten_info_groups iter results [] = results"
| "flatten_info_groups iter results ((None, g) # gs) =
     flatten_info_groups iter (results |\<union>| fset_of_list g) gs"
| "flatten_info_groups iter results ((Some m, g) # gs) =
     flatten_info_groups iter (finsert (flatten_module_group iter m g) results) gs"

text \<open>
  \<open>CLITranslator._flatten_test_infos\<close>. The list is the set \<open>test_infos\<close> in
  iteration order.
\<close>

definition flatten_test_infos ::
  "(TestFilter fset \<Rightarrow> TestFilter list) \<Rightarrow> TestInfo list \<Rightarrow> TestInfo fset" where
  "flatten_test_infos iter test_infos =
     flatten_info_groups iter {||} (sort_and_group module_name test_infos)"

text \<open>An iteration order lists exactly the members of every set.\<close>

definition enumerates :: "('a fset \<Rightarrow> 'a list) \<Rightarrow> bool" where
  "enumerates iter = (\<forall>S. fset_of_list (iter S) = S)"

section \<open>Facts about the string primitives\<close>

lemma startswith_prefix: "startswith p s \<longleftrightarrow> prefix p s"
  unfolding startswith_def
  by (metis append_take_drop_id prefix_def append_eq_conv_conj prefixE)

lemma str_contains_sublist: "str_contains sub s \<longleftrightarrow> sublist sub s"
proof (induction s)
  case Nil
  then show ?case by simp
next
  case (Cons c cs)
  then show ?case
    by (simp add: startswith_prefix sublist_Cons_right)
qed

lemma str_contains_char: "str_contains [c] s \<longleftrightarrow> c \<in> set s"
  by (induction s) (auto simp: startswith_def)

lemma startswith_char: "startswith [c] s \<longleftrightarrow> (\<exists>t. s = c # t)"
  by (cases s) (auto simp: startswith_def)

section \<open>Facts about grouping\<close>

lemma sorted_run:
  "sorted (map key (x # xs)) \<Longrightarrow>
     takeWhile (\<lambda>y. key y = key x) xs = filter (\<lambda>y. key y = key x) xs
     \<and> dropWhile (\<lambda>y. key y = key x) xs = filter (\<lambda>y. key y \<noteq> key x) xs"
proof (induction xs)
  case Nil
  then show ?case by simp
next
  case (Cons y ys)
  show ?case
  proof (cases "key y = key x")
    case True
    with Cons show ?thesis by simp
  next
    case False
    from Cons.prems have "\<forall>z\<in>set ys. key y \<le> key z" and "key x \<le> key y" by auto
    with False have "\<forall>z\<in>set ys. key z \<noteq> key x" by force
    with False show ?thesis by (simp add: filter_empty_conv filter_id_conv)
  qed
qed

lemma groupby_sorted:
  "sorted (map key xs) \<Longrightarrow>
     set (groupby key xs) = (\<lambda>k. (k, filter (\<lambda>x. key x = k) xs)) ` key ` set xs"
proof (induction key xs rule: groupby.induct)
  case (1 key)
  then show ?case by simp
next
  case (2 key x xs)
  let ?P = "\<lambda>y. key y = key x"
  from sorted_run[OF "2.prems"]
  have tw: "takeWhile ?P xs = filter ?P xs"
    and dw: "dropWhile ?P xs = filter (\<lambda>y. key y \<noteq> key x) xs" by simp_all
  have "sorted (map key (dropWhile ?P xs))"
    using "2.prems" by (simp add: dw sorted_filter)
  from "2.IH"[OF this]
  have ih: "set (groupby key (dropWhile ?P xs)) =
      (\<lambda>k. (k, filter (\<lambda>x. key x = k) (dropWhile ?P xs))) ` key ` set (dropWhile ?P xs)" .
  have same: "filter (\<lambda>y. key y = k) (filter (\<lambda>y. key y \<noteq> key x) xs)
      = filter (\<lambda>y. key y = k) (x # xs)" if "k \<noteq> key x" for k
    using that by (auto simp: filter_empty_conv intro!: filter_cong)
  have keys: "key ` set (filter (\<lambda>y. key y \<noteq> key x) xs) = key ` set xs - {key x}"
    by auto
  have "set (groupby key (dropWhile ?P xs)) =
      (\<lambda>k. (k, filter (\<lambda>y. key y = k) (filter (\<lambda>y. key y \<noteq> key x) xs)))
        ` (key ` set xs - {key x})"
    using ih by (simp only: dw keys)
  also have "\<dots> = (\<lambda>k. (k, filter (\<lambda>y. key y = k) (x # xs))) ` (key ` set xs - {key x})"
    by (rule image_cong) (use same in blast)+
  finally have "set (groupby key (dropWhile ?P xs)) =
      (\<lambda>k. (k, filter (\<lambda>y. key y = k) (x # xs))) ` (key ` set xs - {key x})" .
  moreover have "(key x, x # takeWhile ?P xs) = (key x, filter (\<lambda>y. key y = key x) (x # xs))"
    by (simp add: tw)
  ultimately show ?case
    by (simp only: groupby.simps list.set) auto
qed

lemma set_sort_and_group:
  "set (sort_and_group key xs) = (\<lambda>k. (k, filter (\<lambda>x. key x = k) xs)) ` key ` set xs"
  unfolding sort_and_group_def
  by (simp add: groupby_sorted sort_key_stable)

section \<open>The classifier\<close>

text \<open>
  C1. For every identifier the classifier returns exactly the ordered candidate list of
  the lexical rules, as a pure function of the string: a leading \<open>.\<close> or a contained
  \<open>..\<close> gives FILE_PATH only; otherwise a contained \<open>/\<close> gives FILE_PATH for an
  absolute path and FILE_PATH, INTEGRATION for a relative one; otherwise a contained
  \<open>:\<close> gives MODULE_CLASS, MODULE_PACKAGE, INTEGRATION when there is a dot and
  MODULE_CLASS, INTEGRATION when there is none; otherwise a contained \<open>.\<close> gives
  FILE_PATH, QUALIFIED_CLASS, PACKAGE; every other string gives INTEGRATION, MODULE,
  CLASS. The three boundary identifiers of the specification are included.
\<close>

theorem classify_rules:
  "get_test_reference_types ref =
     (if (\<exists>t. ref = CHR ''.'' # t) \<or> sublist ''..'' ref then [FILE_PATH]
      else if CHR ''/'' \<in> set ref then
        (if (\<exists>t. ref = CHR ''/'' # t) then [FILE_PATH] else [FILE_PATH, INTEGRATION])
      else if CHR '':'' \<in> set ref then
        (if CHR ''.'' \<in> set ref then [MODULE_CLASS, MODULE_PACKAGE, INTEGRATION]
         else [MODULE_CLASS, INTEGRATION])
      else if CHR ''.'' \<in> set ref then [FILE_PATH, QUALIFIED_CLASS, PACKAGE]
      else [INTEGRATION, MODULE, CLASS])
   \<and> get_test_reference_types ''../foo'' = [FILE_PATH]
   \<and> get_test_reference_types ''a/b'' = [FILE_PATH, INTEGRATION]
   \<and> get_test_reference_types ''a:b.c'' = [MODULE_CLASS, MODULE_PACKAGE, INTEGRATION]"
proof -
  have rules: "get_test_reference_types ref =
     (if (\<exists>t. ref = CHR ''.'' # t) \<or> sublist ''..'' ref then [FILE_PATH]
      else if CHR ''/'' \<in> set ref then
        (if (\<exists>t. ref = CHR ''/'' # t) then [FILE_PATH] else [FILE_PATH, INTEGRATION])
      else if CHR '':'' \<in> set ref then
        (if CHR ''.'' \<in> set ref then [MODULE_CLASS, MODULE_PACKAGE, INTEGRATION]
         else [MODULE_CLASS, INTEGRATION])
      else if CHR ''.'' \<in> set ref then [FILE_PATH, QUALIFIED_CLASS, PACKAGE]
      else [INTEGRATION, MODULE, CLASS])"
    unfolding get_test_reference_types_def
    by (simp only: str_contains_char startswith_char) (simp only: str_contains_sublist)
  have e1: "get_test_reference_types ''../foo'' = [FILE_PATH]"
    by (simp add: get_test_reference_types_def startswith_def)
  have e2: "get_test_reference_types ''a/b'' = [FILE_PATH, INTEGRATION]"
    by (simp add: get_test_reference_types_def startswith_def)
  have e3: "get_test_reference_types ''a:b.c'' = [MODULE_CLASS, MODULE_PACKAGE, INTEGRATION]"
    by (simp add: get_test_reference_types_def startswith_def)
  from rules e1 e2 e3 show ?thesis by blast
qed

end
